theory Spec2Isabelle
  imports Main
begin

section \<open>The manual-journal controller (Accounting.js) as state-passing functions\<close>

text \<open>
  The three handlers \<open>makeJournalEntries\<close>, \<open>editManualJournal\<close> and
  \<open>deleteManualJournal\<close> of \<^verbatim>\<open>server/src/http/controllers/Accounting.js\<close> are
  embedded as functions from a store (the three tables they touch) and a request to the
  new store and the response. The request is the sanitized body: an amount is the
  finite number of integer value that \<open>toInt\<close> left in the field, and an absent or
  null amount is \<open>None\<close>. Dates are kept as the string that
  \<open>moment(...).format('YYYY-MM-DD')\<close> yields.
\<close>

subsection \<open>Tables\<close>

datatype normal_side = DebitNormal | CreditNormal

record account =
  acc_id :: int
  acc_normal :: normal_side
  acc_balance :: int

text \<open>
  A total of the handlers is a JavaScript number: it starts at 0 and has positive amounts
  added to it, so it is a non-negative double of integer value, or \<open>Infinity\<close> once a
  sum has passed the largest double.
\<close>

datatype number = Finite int | Infinity

record manual_journal =
  mj_id :: int
  mj_reference :: string
  mj_transaction_type :: string
  mj_journal_number :: string
  mj_amount :: number
  mj_date :: string
  mj_description :: "string option"
  mj_user_id :: int

record account_transaction =
  tr_id :: int
  tr_account_id :: int
  tr_debit :: int
  tr_credit :: int
  tr_reference_type :: string
  tr_reference_id :: int
  tr_note :: "string option"
  tr_date :: string
  tr_user_id :: int

text \<open>
  \<open>last_journal_id\<close> and \<open>last_transaction_id\<close> are the auto-increment counters of the
  two tables: an insert takes the next value.
\<close>

record store =
  accounts :: "account list"
  manual_journals :: "manual_journal list"
  accounts_transactions :: "account_transaction list"
  last_journal_id :: int
  last_transaction_id :: int

subsection \<open>Requests and responses\<close>

record entry_line =
  ln_account_id :: int
  ln_credit :: "int option"
  ln_debit :: "int option"
  ln_note :: "string option"

record journal_form =
  fm_date :: string
  fm_journal_number :: string
  fm_reference :: string
  fm_description :: "string option"
  fm_entries :: "entry_line list"

text \<open>An element of \<open>errorReasons\<close>: the object \<open>{ type, code }\<close>.\<close>

record error_reason =
  er_type :: string
  er_code :: nat

text \<open>
  What stops a handler's promise: a rejected write (\<open>PersistenceError\<close>), the entry
  constructor refusing a line (\<open>InvalidEntryError\<close>), a property read on
  \<open>undefined\<close> (\<open>TypeError\<close>), or a response sent under a status code that is
  not between 100 and 999 (\<open>RangeError\<close>).
\<close>

datatype exn = PersistenceError | InvalidEntryError | TypeError | RangeError

text \<open>
  \<open>BadData\<close> is \<open>res.boom.badData(null, { code: 'validation_error', ... })\<close>,
  \<open>ErrorResponse s rs\<close> is \<open>res.status(s).send({ errors: rs })\<close>, \<open>Success b\<close> is
  \<open>res.status(200).send(b)\<close> with the id in the body when there is one, and
  \<open>Rejected e\<close> is the handler's promise rejecting with \<open>e\<close>.
\<close>

datatype response =
    BadData "string list"
  | ErrorResponse nat "error_reason list"
  | Success "int option"
  | Rejected exn

text \<open>
  The durable writes a handler issues. A fault oracle says which of them the store
  rejects; \<open>no_faults\<close> is the store that accepts every write.
\<close>

datatype write_step = DocumentWrite | DeleteEntries | SaveEntries | SaveBalance

type_synonym faults = "write_step \<Rightarrow> bool"

definition no_faults :: faults where
  "no_faults = (\<lambda>_. False)"

subsection \<open>JavaScript truthiness and comparison on optional amounts\<close>

text \<open>\<open>truthy x\<close> is the condition \<open>x\<close> of JavaScript: null, undefined and 0 are false.\<close>

fun truthy :: "int option \<Rightarrow> bool" where
  "truthy None = False"
| "truthy (Some n) = (n \<noteq> 0)"

text \<open>The number of binary digits of a positive integer.\<close>

function bit_length :: "int \<Rightarrow> nat" where
  "bit_length n = (if n \<le> 0 then 0 else Suc (bit_length (n div 2)))"
  by pat_completeness auto
termination
  by (relation "measure nat") auto

declare bit_length.simps [simp del]

text \<open>
  The double nearest to a non-negative integer \<open>s\<close>, as the addition of two doubles
  yields it from their exact sum: \<open>s\<close> itself below \<open>2^53\<close>; above, \<open>s\<close> rounded to 53
  significant binary digits, a tie going to the even significand; \<open>Infinity\<close> when the
  rounded value reaches \<open>2^1024\<close>.
\<close>

definition round_double :: "int \<Rightarrow> number" where
  "round_double s =
     (if s < 2 ^ 53 then Finite s
      else let k = bit_length s - 53; q = s div 2 ^ k; r = s mod 2 ^ k; h = 2 ^ (k - 1);
               v = (if r > h \<or> (r = h \<and> odd q) then q + 1 else q) * 2 ^ k
           in if v < 2 ^ 1024 then Finite v else Infinity)"

text \<open>\<open>total += x\<close> for a positive amount \<open>x\<close>.\<close>

fun js_plus :: "number \<Rightarrow> int \<Rightarrow> number" where
  "js_plus (Finite t) n = round_double (t + n)"
| "js_plus Infinity n = Infinity"

text \<open>\<open>if (x > 0) { total += x; }\<close>: null and undefined are not greater than 0.\<close>

fun add_positive :: "int option \<Rightarrow> number \<Rightarrow> number" where
  "add_positive None t = t"
| "add_positive (Some n) t = (if n > 0 then js_plus t n else t)"

text \<open>\<open>total <= 0\<close>\<close>

fun le_zero :: "number \<Rightarrow> bool" where
  "le_zero (Finite n) = (n \<le> 0)"
| "le_zero Infinity = False"

subsection \<open>JournalEntry and JournalPoster\<close>

text \<open>
  Modelled from the spec: the entry that the constructor of
  \<^verbatim>\<open>services/Accounting/JournalEntry\<close> builds, with the fields the create handler
  passes to it; an amount that is not set is stored as 0.
\<close>

record journal_entry =
  je_debit :: int
  je_credit :: int
  je_account :: int
  je_referenceType :: string
  je_referenceId :: int
  je_accountNormal :: normal_side
  je_note :: "string option"
  je_date :: string
  je_userId :: int

text \<open>
  Modelled from the spec: the constructor of \<^verbatim>\<open>services/Accounting/JournalEntry\<close>, which
  is not among the source files. The specification (4.1, 7) has it reject, with
  \<open>InvalidEntryError\<close>, an entry with both or neither of debit and credit set and an entry
  whose amount is not positive. An amount is set when it is present (not null or
  undefined).
\<close>

definition JournalEntry ::
  "int option \<Rightarrow> int option \<Rightarrow> int \<Rightarrow> string \<Rightarrow> int \<Rightarrow> normal_side \<Rightarrow> string option \<Rightarrow> string \<Rightarrow> int
    \<Rightarrow> exn + journal_entry" where
  "JournalEntry debit credit account referenceType referenceId accountNormal note date userId =
     (let mk = (\<lambda>d c. \<lparr>je_debit = d, je_credit = c, je_account = account,
                        je_referenceType = referenceType, je_referenceId = referenceId,
                        je_accountNormal = accountNormal, je_note = note, je_date = date,
                        je_userId = userId\<rparr>)
      in case (debit, credit) of
           (Some d, None) \<Rightarrow> if d > 0 then Inr (mk d 0) else Inl InvalidEntryError
         | (None, Some c) \<Rightarrow> if c > 0 then Inr (mk 0 c) else Inl InvalidEntryError
         | (Some d, Some c) \<Rightarrow> Inl InvalidEntryError
         | (None, None) \<Rightarrow> Inl InvalidEntryError)"

text \<open>
  Modelled from the spec: the balance delta rule of \<^verbatim>\<open>services/Accounting/JournalPoster\<close>
  (specification 4.1). On a debit-normal account the delta is debit minus credit, on a
  credit-normal account credit minus debit.
\<close>

fun balance_delta :: "normal_side \<Rightarrow> int \<Rightarrow> int \<Rightarrow> int" where
  "balance_delta DebitNormal debit credit = debit - credit"
| "balance_delta CreditNormal debit credit = credit - debit"

text \<open>Modelled from the spec: the debit bucket and the credit bucket of staged entries.\<close>

datatype bucket = DebitBucket | CreditBucket

text \<open>
  A transaction as \<open>AccountTransaction.query()....withGraphFetched('account.type')\<close>
  returns it: the row with its account (absent when no account has that id).
\<close>

type_synonym fetched_transaction = "account_transaction \<times> account option"

text \<open>
  Modelled from the spec: the \<open>JournalPoster\<close> handle of
  \<^verbatim>\<open>services/Accounting/JournalPoster\<close>, which is not among the source files
  (specification 4.1). It holds the staged entries, each in its debit or credit bucket,
  the loaded (previously persisted) entries, and the entries pending deletion.
\<close>

record journal_poster =
  jp_staged :: "(bucket \<times> journal_entry) list"
  jp_loaded :: "fetched_transaction list"
  jp_removed :: "fetched_transaction list"

text \<open>Modelled from the spec: \<open>new JournalPoster()\<close>, a handle with nothing in it.\<close>

definition new_JournalPoster :: journal_poster where
  "new_JournalPoster = \<lparr>jp_staged = [], jp_loaded = [], jp_removed = []\<rparr>"

text \<open>Modelled from the spec: \<open>journalPoster.debit(entry)\<close> stages an entry in the debit bucket.\<close>

definition poster_debit :: "journal_entry \<Rightarrow> journal_poster \<Rightarrow> journal_poster" where
  "poster_debit e p = p\<lparr>jp_staged := jp_staged p @ [(DebitBucket, e)]\<rparr>"

text \<open>Modelled from the spec: \<open>journalPoster.credit(entry)\<close> stages an entry in the credit bucket.\<close>

definition poster_credit :: "journal_entry \<Rightarrow> journal_poster \<Rightarrow> journal_poster" where
  "poster_credit e p = p\<lparr>jp_staged := jp_staged p @ [(CreditBucket, e)]\<rparr>"

text \<open>
  Modelled from the spec: \<open>loadEntries\<close> loads previously persisted entries into the
  handle for subsequent removal.
\<close>

definition loadEntries :: "fetched_transaction list \<Rightarrow> journal_poster \<Rightarrow> journal_poster" where
  "loadEntries ts p = p\<lparr>jp_loaded := jp_loaded p @ ts\<rparr>"

text \<open>
  Modelled from the spec: \<open>removeEntries\<close> marks every loaded entry as pending deletion;
  its inverse balance delta is accounted for in \<open>balance_change\<close>.
\<close>

definition removeEntries :: "journal_poster \<Rightarrow> journal_poster" where
  "removeEntries p = p\<lparr>jp_loaded := [], jp_removed := jp_removed p @ jp_loaded p\<rparr>"

text \<open>
  Modelled from the spec: the balance delta rule applied to a staged entry, taking the
  normal side the entry carries, and to a loaded transaction, taking the normal side of
  the account fetched with it (a transaction without account has no balance to change).
\<close>

definition entry_delta :: "journal_entry \<Rightarrow> int" where
  "entry_delta e = balance_delta (je_accountNormal e) (je_debit e) (je_credit e)"

fun fetched_delta :: "fetched_transaction \<Rightarrow> int" where
  "fetched_delta (t, Some a) = balance_delta (acc_normal a) (tr_debit t) (tr_credit t)"
| "fetched_delta (t, None) = 0"

text \<open>
  Modelled from the spec: the net balance delta of one account, the sum of the staged
  entries' contributions minus the sum of the removed entries' contributions.
\<close>

definition balance_change :: "journal_poster \<Rightarrow> int \<Rightarrow> int" where
  "balance_change p aid =
     sum_list (map (\<lambda>(b, e). entry_delta e) (filter (\<lambda>(b, e). je_account e = aid) (jp_staged p)))
     - sum_list (map fetched_delta (filter (\<lambda>(t, a). tr_account_id t = aid) (jp_removed p)))"

text \<open>Modelled from the spec: \<open>saveBalance\<close> applies the net delta to every account's balance.\<close>

definition saveBalance :: "journal_poster \<Rightarrow> store \<Rightarrow> store" where
  "saveBalance p st =
     st\<lparr>accounts := map (\<lambda>a. a\<lparr>acc_balance := acc_balance a + balance_change p (acc_id a)\<rparr>)
                         (accounts st)\<rparr>"

text \<open>
  Modelled from the spec: the row that a staged entry becomes in the entries table, and
  the rows of a list of entries, numbered by the auto-increment counter.
\<close>

definition transaction_row :: "int \<Rightarrow> journal_entry \<Rightarrow> account_transaction" where
  "transaction_row i e =
     \<lparr>tr_id = i, tr_account_id = je_account e, tr_debit = je_debit e, tr_credit = je_credit e,
      tr_reference_type = je_referenceType e, tr_reference_id = je_referenceId e,
      tr_note = je_note e, tr_date = je_date e, tr_user_id = je_userId e\<rparr>"

fun insert_rows :: "int \<Rightarrow> journal_entry list \<Rightarrow> account_transaction list" where
  "insert_rows i [] = []"
| "insert_rows i (e # es) = transaction_row (i + 1) e # insert_rows (i + 1) es"

text \<open>Modelled from the spec: \<open>saveEntries\<close> inserts all staged entries.\<close>

definition saveEntries :: "journal_poster \<Rightarrow> store \<Rightarrow> store" where
  "saveEntries p st =
     st\<lparr>accounts_transactions :=
          accounts_transactions st @ insert_rows (last_transaction_id st) (map snd (jp_staged p)),
        last_transaction_id := last_transaction_id st + int (length (jp_staged p))\<rparr>"

text \<open>Modelled from the spec: \<open>deleteEntries\<close> deletes all entries pending deletion.\<close>

definition deleteEntries :: "journal_poster \<Rightarrow> store \<Rightarrow> store" where
  "deleteEntries p st =
     st\<lparr>accounts_transactions :=
          filter (\<lambda>t. tr_id t \<notin> set (map (\<lambda>(r, a). tr_id r) (jp_removed p)))
                 (accounts_transactions st)\<rparr>"

subsection \<open>Promise.all over writes\<close>

text \<open>
  \<open>await Promise.all([w1(), w2(), ...])\<close>: every write is started; a write the store
  rejects changes nothing, the others are applied, and the whole rejects when one does.
  The result is the store and whether all writes succeeded.
\<close>

fun promise_all :: "faults \<Rightarrow> (write_step \<times> (store \<Rightarrow> store)) list \<Rightarrow> store \<Rightarrow> store \<times> bool" where
  "promise_all fails [] st = (st, True)"
| "promise_all fails ((s, w) # ws) st =
     (let (st', ok) = promise_all fails ws (if fails s then st else w st)
      in (st', ok \<and> \<not> fails s))"

subsection \<open>The parts the create and edit handlers share\<close>

text \<open>
  The validation chain, as far as the typed request does not already satisfy it:
  \<open>check('entries').isArray({ min: 2 })\<close>. The result lists the failing fields.
\<close>

definition validationErrors :: "journal_form \<Rightarrow> string list" where
  "validationErrors form = (if length (fm_entries form) < 2 then [''entries''] else [])"

text \<open>\<open>form.entries.filter((entry) => (entry.credit || entry.debit))\<close>\<close>

definition nonempty_line :: "entry_line \<Rightarrow> bool" where
  "nonempty_line entry = (truthy (ln_credit entry) \<or> truthy (ln_debit entry))"

definition filter_entries :: "journal_form \<Rightarrow> entry_line list" where
  "filter_entries form = filter nonempty_line (fm_entries form)"

text \<open>
  The two \<open>forEach\<close> accumulations of lines 171 to 178: each total starts at 0 and
  takes, line by line, the amounts that are greater than 0.
\<close>

definition totalCredit :: "entry_line list \<Rightarrow> number" where
  "totalCredit es = fold (\<lambda>entry. add_positive (ln_credit entry)) es (Finite 0)"

definition totalDebit :: "entry_line list \<Rightarrow> number" where
  "totalDebit es = fold (\<lambda>entry. add_positive (ln_debit entry)) es (Finite 0)"

definition ZERO_TOTAL :: error_reason where
  "ZERO_TOTAL = \<lparr>er_type = ''CREDIT.DEBIT.SUMATION.SHOULD.NOT.EQUAL.ZERO'', er_code = 400\<rparr>"

definition MISMATCH :: error_reason where
  "MISMATCH = \<lparr>er_type = ''CREDIT.DEBIT.NOT.EQUALS'', er_code = 100\<rparr>"

definition ACCOUNTS_IDS_NOT_FOUND :: error_reason where
  "ACCOUNTS_IDS_NOT_FOUND = \<lparr>er_type = ''ACCOUNTS.IDS.NOT.FOUND'', er_code = 200\<rparr>"

definition JOURNAL_NUMBER_ALREADY_EXISTS :: error_reason where
  "JOURNAL_NUMBER_ALREADY_EXISTS = \<lparr>er_type = ''JOURNAL.NUMBER.ALREADY.EXISTS'', er_code = 300\<rparr>"

definition MANUAL_JOURNAL_NOT_FOUND :: error_reason where
  "MANUAL_JOURNAL_NOT_FOUND = \<lparr>er_type = ''MANUAL.JOURNAL.NOT.FOUND'', er_code = 100\<rparr>"

definition total_errors :: "entry_line list \<Rightarrow> error_reason list" where
  "total_errors es =
     (if le_zero (totalCredit es) \<or> le_zero (totalDebit es) then [ZERO_TOTAL] else [])
     @ (if totalCredit es \<noteq> totalDebit es then [MISMATCH] else [])"

text \<open>\<open>Account.query().whereIn('id', accountsIds)\<close>\<close>

definition accounts_whereIn :: "store \<Rightarrow> int list \<Rightarrow> account list" where
  "accounts_whereIn st ids = filter (\<lambda>a. acc_id a \<in> set ids) (accounts st)"

text \<open>\<open>difference(accountsIds, storedAccountsIds)\<close> of lodash.\<close>

definition difference :: "int list \<Rightarrow> int list \<Rightarrow> int list" where
  "difference xs ys = filter (\<lambda>x. x \<notin> set ys) xs"

definition missing_account_ids :: "store \<Rightarrow> entry_line list \<Rightarrow> int list" where
  "missing_account_ids st es =
     (let accountsIds = map ln_account_id es;
          storedAccountsIds = map acc_id (accounts_whereIn st accountsIds)
      in difference accountsIds storedAccountsIds)"

definition account_errors :: "store \<Rightarrow> entry_line list \<Rightarrow> error_reason list" where
  "account_errors st es =
     (if length (missing_account_ids st es) > 0 then [ACCOUNTS_IDS_NOT_FOUND] else [])"

text \<open>
  \<open>AccountTransaction.query().whereIn('reference_type', types).where('reference_id', id)
  .withGraphFetched('account.type')\<close>
\<close>

definition fetch_transactions :: "store \<Rightarrow> string list \<Rightarrow> int \<Rightarrow> fetched_transaction list" where
  "fetch_transactions st types rid =
     map (\<lambda>t. (t, find (\<lambda>a. acc_id a = tr_account_id t) (accounts st)))
         (filter (\<lambda>t. tr_reference_type t \<in> set types \<and> tr_reference_id t = rid)
                 (accounts_transactions st))"

subsection \<open>makeJournalEntries\<close>

text \<open>\<open>ManualJournal.query().insert({...})\<close>: the new row takes the next id.\<close>

definition insert_manual_journal ::
  "int \<Rightarrow> journal_form \<Rightarrow> number \<Rightarrow> store \<Rightarrow> store \<times> manual_journal" where
  "insert_manual_journal user form amount st =
     (let manualJournal =
            \<lparr>mj_id = last_journal_id st + 1, mj_reference = fm_reference form,
             mj_transaction_type = ''Journal'', mj_journal_number = fm_journal_number form,
             mj_amount = amount, mj_date = fm_date form,
             mj_description = fm_description form, mj_user_id = user\<rparr>
      in (st\<lparr>manual_journals := manual_journals st @ [manualJournal],
             last_journal_id := last_journal_id st + 1\<rparr>, manualJournal))"

text \<open>
  The body of \<open>entries.forEach\<close> at lines 221 to 240: find the account, construct the
  entry, stage it in the debit bucket when \<open>entry.debit\<close> is truthy and in the credit
  bucket otherwise. An exception leaves the loop.
\<close>

fun stage_entries ::
  "int \<Rightarrow> string \<Rightarrow> int \<Rightarrow> account list \<Rightarrow> entry_line list \<Rightarrow> journal_poster \<Rightarrow> exn + journal_poster" where
  "stage_entries user date jid accs [] journalPoster = Inr journalPoster"
| "stage_entries user date jid accs (entry # es) journalPoster =
     (case find (\<lambda>a. acc_id a = ln_account_id entry) accs of
        None \<Rightarrow> Inl TypeError
      | Some account \<Rightarrow>
          (case JournalEntry (ln_debit entry) (ln_credit entry) (acc_id account) ''Journal'' jid
                  (acc_normal account) (ln_note entry) date user of
             Inl e \<Rightarrow> Inl e
           | Inr jouranlEntry \<Rightarrow>
               stage_entries user date jid accs es
                 (if truthy (ln_debit entry) then poster_debit jouranlEntry journalPoster
                  else poster_credit jouranlEntry journalPoster)))"

definition journal_number_taken :: "store \<Rightarrow> string \<Rightarrow> bool" where
  "journal_number_taken st n = (length (filter (\<lambda>j. mj_journal_number j = n) (manual_journals st)) > 0)"

text \<open>
  The \<open>errorReasons\<close> array of the create handler after its four checks (lines 180 to
  204), in the order the handler pushes them.
\<close>

definition create_errorReasons :: "store \<Rightarrow> journal_form \<Rightarrow> error_reason list" where
  "create_errorReasons st form =
     (let entries = filter_entries form
      in total_errors entries @ account_errors st entries
         @ (if journal_number_taken st (fm_journal_number form)
            then [JOURNAL_NUMBER_ALREADY_EXISTS] else []))"

definition makeJournalEntries :: "faults \<Rightarrow> int \<Rightarrow> store \<Rightarrow> journal_form \<Rightarrow> store \<times> response" where
  "makeJournalEntries fails user st form =
     (if validationErrors form \<noteq> [] then (st, BadData (validationErrors form))
      else
        let entries = filter_entries form;
            accs = accounts_whereIn st (map ln_account_id entries);
            errorReasons = create_errorReasons st form
        in if length errorReasons > 0 then (st, ErrorResponse 400 errorReasons)
           else if fails DocumentWrite then (st, Rejected PersistenceError)
           else
             let (st1, manualJournal) = insert_manual_journal user form (totalCredit entries) st
             in case stage_entries user (fm_date form) (mj_id manualJournal) accs entries
                       new_JournalPoster of
                  Inl e \<Rightarrow> (st1, Rejected e)
                | Inr journalPoster \<Rightarrow>
                    (let (st2, ok) = promise_all fails
                           [(SaveEntries, saveEntries journalPoster),
                            (SaveBalance, saveBalance journalPoster)] st1
                     in if ok then (st2, Success (Some (mj_id manualJournal)))
                        else (st2, Rejected PersistenceError)))"

subsection \<open>editManualJournal\<close>

text \<open>\<open>ManualJournal.query().where('id', id).first()\<close>\<close>

definition find_manual_journal :: "store \<Rightarrow> int \<Rightarrow> manual_journal option" where
  "find_manual_journal st i = find (\<lambda>j. mj_id j = i) (manual_journals st)"

text \<open>
  \<open>ManualJournal.query().where('journal_number', n).whereNot('id', id).first()\<close>
\<close>

definition other_journal_with_number :: "store \<Rightarrow> string \<Rightarrow> int \<Rightarrow> manual_journal option" where
  "other_journal_with_number st n i =
     find (\<lambda>j. mj_journal_number j = n \<and> mj_id j \<noteq> i) (manual_journals st)"

text \<open>
  The update of the edit handler spells the key of the journal number \<open>journalNumber\<close>,
  where the insert and the queries say \<open>journal_number\<close>. What the key does is decided by
  the declaration of the \<open>ManualJournal\<close> model (\<^verbatim>\<open>models/JournalEntry\<close>), which is not
  among the source files, so it is a parameter of the edit handler: the key is written
  to the journal number column, or it names no column and the journal number stays. (A
  store that refuses the update because of the key rejects the document write.)
\<close>

datatype key_handling = WritesColumn | NamesNoColumn

text \<open>
  \<open>ManualJournal.query().where('id', manualJournal.id).update({...})\<close>. An absent
  description is \<open>description: undefined\<close>, which the update leaves out: the stored
  description stays.
\<close>

definition update_manual_journal ::
  "key_handling \<Rightarrow> int \<Rightarrow> journal_form \<Rightarrow> number \<Rightarrow> store \<Rightarrow> store" where
  "update_manual_journal km i form amount st =
     st\<lparr>manual_journals :=
          map (\<lambda>j. if mj_id j = i
                   then j\<lparr>mj_reference := fm_reference form, mj_transaction_type := ''Journal'',
                          mj_journal_number :=
                            (case km of WritesColumn \<Rightarrow> fm_journal_number form
                                      | NamesNoColumn \<Rightarrow> mj_journal_number j),
                          mj_amount := amount, mj_date := fm_date form,
                          mj_description :=
                            (case fm_description form of None \<Rightarrow> mj_description j
                                                       | Some d \<Rightarrow> Some d)\<rparr>
                   else j)
              (manual_journals st)\<rparr>"

text \<open>
  The \<open>errorReasons\<close> array of the edit handler (lines 328 to 353): here the journal
  number is checked before the accounts.
\<close>

definition edit_errorReasons :: "store \<Rightarrow> int \<Rightarrow> journal_form \<Rightarrow> error_reason list" where
  "edit_errorReasons st i form =
     (let entries = filter_entries form
      in total_errors entries
         @ (case other_journal_with_number st (fm_journal_number form) i of
              Some other \<Rightarrow> [JOURNAL_NUMBER_ALREADY_EXISTS] | None \<Rightarrow> [])
         @ account_errors st entries)"

text \<open>
  When the document is not found the handler calls
  \<open>res.status(4040).send({ errors: [{ type: 'MANUAL.JOURNAL.NOT.FOUND', code: 100 }] })\<close>:
  4040 is no status code, so \<open>send\<close> throws \<open>RangeError\<close> when it writes the head, no
  body is sent and the handler's promise rejects.
\<close>

definition editManualJournal ::
  "key_handling \<Rightarrow> faults \<Rightarrow> store \<Rightarrow> int \<Rightarrow> journal_form \<Rightarrow> store \<times> response" where
  "editManualJournal km fails st i form =
     (if validationErrors form \<noteq> [] then (st, BadData (validationErrors form))
      else case find_manual_journal st i of
        None \<Rightarrow> (st, Rejected RangeError)
      | Some manualJournal \<Rightarrow>
          let entries = filter_entries form;
              errorReasons = edit_errorReasons st i form
          in if length errorReasons > 0 then (st, ErrorResponse 400 errorReasons)
             else if fails DocumentWrite then (st, Rejected PersistenceError)
             else
               let st1 = update_manual_journal km (mj_id manualJournal) form
                           (totalCredit entries) st;
                   transactions = fetch_transactions st1 [''Journal''] (mj_id manualJournal);
                   journal = removeEntries (loadEntries transactions new_JournalPoster);
                   (st2, ok) = promise_all fails
                     [(DeleteEntries, deleteEntries journal),
                      (SaveEntries, saveEntries journal),
                      (SaveBalance, saveBalance journal)] st1
               in if ok then (st2, Success None) else (st2, Rejected PersistenceError))"

subsection \<open>deleteManualJournal\<close>

definition delete_manual_journal :: "int \<Rightarrow> store \<Rightarrow> store" where
  "delete_manual_journal i st =
     st\<lparr>manual_journals := filter (\<lambda>j. mj_id j \<noteq> i) (manual_journals st)\<rparr>"

definition deleteManualJournal :: "faults \<Rightarrow> store \<Rightarrow> int \<Rightarrow> store \<times> response" where
  "deleteManualJournal fails st i =
     (case find_manual_journal st i of
        None \<Rightarrow> (st, ErrorResponse 404 [MANUAL_JOURNAL_NOT_FOUND])
      | Some manualJournal \<Rightarrow>
          let transactions =
                fetch_transactions st [''Journal'', ''ManualJournal''] (mj_id manualJournal);
              journal = removeEntries (loadEntries transactions new_JournalPoster)
          in if fails DocumentWrite then (st, Rejected PersistenceError)
             else
               let st1 = delete_manual_journal (mj_id manualJournal) st;
                   (st2, ok) = promise_all fails
                     [(DeleteEntries, deleteEntries journal),
                      (SaveBalance, saveBalance journal)] st1
               in if ok then (st2, Success (Some i)) else (st2, Rejected PersistenceError))"

subsection \<open>Example store and requests\<close>

text \<open>
  The scenario of the specification (section 8): account 1 is debit-normal, account 2 is
  credit-normal, both start at balance 0, and nothing has been posted.
\<close>

definition st0 :: store where
  "st0 = \<lparr>accounts = [\<lparr>acc_id = 1, acc_normal = DebitNormal, acc_balance = 0\<rparr>,
                       \<lparr>acc_id = 2, acc_normal = CreditNormal, acc_balance = 0\<rparr>],
          manual_journals = [], accounts_transactions = [],
          last_journal_id = 0, last_transaction_id = 0\<rparr>"

definition line :: "int \<Rightarrow> int option \<Rightarrow> int option \<Rightarrow> entry_line" where
  "line a d c = \<lparr>ln_account_id = a, ln_credit = c, ln_debit = d, ln_note = None\<rparr>"

definition request :: "string \<Rightarrow> entry_line list \<Rightarrow> journal_form" where
  "request n es = \<lparr>fm_date = ''2020-01-31'', fm_journal_number = n, fm_reference = [],
     fm_description = None, fm_entries = es\<rparr>"

text \<open>The store after posting debit 100 on account 1 and credit 100 on account 2 as J-1.\<close>

definition st1 :: store where
  "st1 = fst (makeJournalEntries no_faults 7 st0
                (request ''J-1'' [line 1 (Some 100) None, line 2 None (Some 100)]))"

text \<open>The store after also posting debit 30 on account 1 and credit 30 on account 2 as J-2.\<close>

definition st2 :: store where
  "st2 = fst (makeJournalEntries no_faults 7 st1
                (request ''J-2'' [line 1 (Some 30) None, line 2 None (Some 30)]))"

subsection \<open>Notions used in the statements\<close>

text \<open>
  What the transactions of document \<open>rid\<close> with a reference type among \<open>types\<close> have
  contributed to the balance of account \<open>a\<close>, by the balance delta rule.
\<close>

definition posted_delta :: "store \<Rightarrow> string list \<Rightarrow> int \<Rightarrow> account \<Rightarrow> int" where
  "posted_delta st types rid a =
     sum_list (map (\<lambda>t. balance_delta (acc_normal a) (tr_debit t) (tr_credit t))
                   (filter (\<lambda>t. tr_reference_type t \<in> set types \<and> tr_reference_id t = rid
                                \<and> tr_account_id t = acc_id a)
                           (accounts_transactions st)))"




text \<open>The exact sums of the amounts that are greater than 0.\<close>

fun positive_part :: "int option \<Rightarrow> int" where
  "positive_part None = 0"
| "positive_part (Some n) = (if n > 0 then n else 0)"

definition positive_credit :: "entry_line list \<Rightarrow> int" where
  "positive_credit es = sum_list (map (\<lambda>entry. positive_part (ln_credit entry)) es)"


text \<open>
  The poster of the edit and delete handlers after \<open>loadEntries\<close> and \<open>removeEntries\<close>.
\<close>

definition removal_poster :: "store \<Rightarrow> string list \<Rightarrow> int \<Rightarrow> journal_poster" where
  "removal_poster st types rid =
     removeEntries (loadEntries (fetch_transactions st types rid) new_JournalPoster)"

text \<open>
  A line that has both amounts set, or a set amount that is zero or negative.
\<close>

fun nonpositive :: "int option \<Rightarrow> bool" where
  "nonpositive None = False"
| "nonpositive (Some n) = (n \<le> 0)"

definition invalid_line :: "entry_line \<Rightarrow> bool" where
  "invalid_line entry =
     ((ln_debit entry \<noteq> None \<and> ln_credit entry \<noteq> None)
      \<or> nonpositive (ln_debit entry) \<or> nonpositive (ln_credit entry))"

text \<open>The store \<open>st1\<close> with the entries of J-1 tagged ManualJournal instead of Journal.\<close>

definition st3 :: store where
  "st3 = st1\<lparr>accounts_transactions :=
               map (\<lambda>t. t\<lparr>tr_reference_type := ''ManualJournal''\<rparr>) (accounts_transactions st1)\<rparr>"

section \<open>Properties of the handlers\<close>

subsection \<open>When the checks fail, nothing is written\<close>

lemma makeJournalEntries_errors:
  "validationErrors form = [] \<Longrightarrow> create_errorReasons st form \<noteq> [] \<Longrightarrow>
   makeJournalEntries fails user st form = (st, ErrorResponse 400 (create_errorReasons st form))"
  by (simp add: makeJournalEntries_def Let_def)

lemma editManualJournal_errors:
  "validationErrors form = [] \<Longrightarrow> find_manual_journal st i = Some mj \<Longrightarrow>
   edit_errorReasons st i form \<noteq> [] \<Longrightarrow>
   editManualJournal km fails st i form = (st, ErrorResponse 400 (edit_errorReasons st i form))"
  by (simp add: editManualJournal_def Let_def)

lemma editManualJournal_response_cases:
  assumes "snd (editManualJournal km fails st i form) = ErrorResponse s rs"
  shows "rs = edit_errorReasons st i form"
  using assms
  by (auto simp: editManualJournal_def Let_def split: if_splits option.splits prod.splits)

lemma reasons_distinct [simp]:
  "JOURNAL_NUMBER_ALREADY_EXISTS \<noteq> ZERO_TOTAL" "JOURNAL_NUMBER_ALREADY_EXISTS \<noteq> MISMATCH"
  "JOURNAL_NUMBER_ALREADY_EXISTS \<noteq> ACCOUNTS_IDS_NOT_FOUND"
  "JOURNAL_NUMBER_ALREADY_EXISTS \<noteq> MANUAL_JOURNAL_NOT_FOUND"
  "ACCOUNTS_IDS_NOT_FOUND \<noteq> ZERO_TOTAL" "ACCOUNTS_IDS_NOT_FOUND \<noteq> MISMATCH"
  by (simp_all add: JOURNAL_NUMBER_ALREADY_EXISTS_def ZERO_TOTAL_def MISMATCH_def
      ACCOUNTS_IDS_NOT_FOUND_def MANUAL_JOURNAL_NOT_FOUND_def)

subsection \<open>Totals\<close>







text \<open>
  Above \<open>2^53\<close> the totals round as doubles do: with the debit \<open>2^53\<close> on one line and the
  credits \<open>2^53\<close> and 1 on two more, the exact sums differ by 1 and the two totals are equal.
\<close>

lemma totals_round_as_doubles:
  "positive_credit [line 1 (Some 9007199254740992) None, line 2 None (Some 9007199254740992),
                    line 2 None (Some 1)] = 9007199254740993
   \<and> totalCredit [line 1 (Some 9007199254740992) None, line 2 None (Some 9007199254740992),
                   line 2 None (Some 1)] = Finite 9007199254740992
   \<and> totalDebit [line 1 (Some 9007199254740992) None, line 2 None (Some 9007199254740992),
                  line 2 None (Some 1)] = Finite 9007199254740992"
  by code_simp

subsection \<open>Queries\<close>

lemma journal_number_taken_iff:
  "journal_number_taken st n \<longleftrightarrow> (\<exists>j \<in> set (manual_journals st). mj_journal_number j = n)"
  by (auto simp: journal_number_taken_def filter_empty_conv)

lemma other_journal_with_number_None_iff:
  "other_journal_with_number st n i = None \<longleftrightarrow>
   (\<forall>j \<in> set (manual_journals st). mj_journal_number j = n \<longrightarrow> mj_id j = i)"
  by (auto simp: other_journal_with_number_def find_None_iff)

lemma find_manual_journal_id:
  "find_manual_journal st i = Some mj \<Longrightarrow> mj_id mj = i"
  by (auto simp: find_manual_journal_def find_Some_iff)

lemma set_missing_account_ids:
  "set (missing_account_ids st es) = ln_account_id ` set es - acc_id ` set (accounts st)"
  by (force simp: missing_account_ids_def difference_def accounts_whereIn_def Let_def)

subsection \<open>Writes that leave the documents alone\<close>

lemma fst_promise_all_Cons:
  "fst (promise_all fails ((s, w) # ws) st)
   = fst (promise_all fails ws (if fails s then st else w st))"
  by (simp add: split_beta)

lemma promise_all_manual_journals:
  "(\<And>s w st. (s, w) \<in> set ws \<Longrightarrow> manual_journals (w st) = manual_journals st) \<Longrightarrow>
   manual_journals (fst (promise_all fails ws st)) = manual_journals st"
proof (induction ws arbitrary: st)
  case Nil
  then show ?case by simp
next
  case (Cons a ws)
  obtain s w where a: "a = (s, w)" by (cases a)
  have "manual_journals (fst (promise_all fails ws (if fails s then st else w st)))
        = manual_journals (if fails s then st else w st)"
    using Cons.prems by (intro Cons.IH) auto
  moreover have "manual_journals (w st) = manual_journals st"
    using Cons.prems a by auto
  ultimately show ?case
    unfolding a fst_promise_all_Cons by simp
qed

lemma deleteManualJournal_removes:
  assumes "find_manual_journal st i = Some mj" and "\<not> fails DocumentWrite"
  shows "find_manual_journal (fst (deleteManualJournal fails st i)) i = None"
proof -
  let ?journal = "removeEntries (loadEntries
      (fetch_transactions st [''Journal'', ''ManualJournal''] (mj_id mj)) new_JournalPoster)"
  let ?ws = "[(DeleteEntries, deleteEntries ?journal), (SaveBalance, saveBalance ?journal)]"
  have "fst (deleteManualJournal fails st i)
        = fst (promise_all fails ?ws (delete_manual_journal (mj_id mj) st))"
    using assms by (simp add: deleteManualJournal_def Let_def split: prod.splits)
  moreover have "manual_journals (fst (promise_all fails ?ws (delete_manual_journal (mj_id mj) st)))
        = manual_journals (delete_manual_journal (mj_id mj) st)"
    by (rule promise_all_manual_journals) (auto simp: deleteEntries_def saveBalance_def)
  ultimately show ?thesis
    using find_manual_journal_id [OF assms(1)]
    by (simp add: find_manual_journal_def delete_manual_journal_def find_None_iff)
qed

lemma deleteManualJournal_no_faults:
  assumes "find_manual_journal st i = Some mj"
  shows "snd (deleteManualJournal no_faults st i) = Success (Some i)"
  using assms by (simp add: deleteManualJournal_def Let_def no_faults_def split: prod.splits)

subsection \<open>Promise.all\<close>


lemma promise_all_no_faults:
  "fst (promise_all no_faults ws st) = fold (\<lambda>(s, w). w) ws st"
  "snd (promise_all no_faults ws st)"
  by (induction ws arbitrary: st) (auto simp: no_faults_def split_beta)

subsection \<open>Writes of one table leave the others alone\<close>

lemma update_manual_journal_other [simp]:
  "accounts (update_manual_journal km i form n st) = accounts st"
  "accounts_transactions (update_manual_journal km i form n st) = accounts_transactions st"
  by (simp_all add: update_manual_journal_def)

lemma delete_manual_journal_other [simp]:
  "accounts (delete_manual_journal i st) = accounts st"
  "accounts_transactions (delete_manual_journal i st) = accounts_transactions st"
  by (simp_all add: delete_manual_journal_def)

lemma insert_manual_journal_other [simp]:
  "accounts (fst (insert_manual_journal user form n st)) = accounts st"
  "accounts_transactions (fst (insert_manual_journal user form n st)) = accounts_transactions st"
  "manual_journals (fst (insert_manual_journal user form n st))
   = manual_journals st @ [snd (insert_manual_journal user form n st)]"
  by (simp_all add: insert_manual_journal_def Let_def)

subsection \<open>The poster that removes a document's entries\<close>

lemma removal_poster_simps:
  "jp_staged (removal_poster st types rid) = []"
  "jp_removed (removal_poster st types rid) = fetch_transactions st types rid"
  by (simp_all add: removal_poster_def removeEntries_def loadEntries_def new_JournalPoster_def)

lemma find_account_distinct:
  "distinct (map acc_id as) \<Longrightarrow> a \<in> set as \<Longrightarrow> find (\<lambda>x. acc_id x = acc_id a) as = Some a"
  by (induction as) (auto simp: image_iff)

lemma fetched_sum:
  assumes "find (\<lambda>x. acc_id x = acc_id a) as = Some a"
  shows "sum_list (map fetched_delta
           (filter (\<lambda>(t, a'). tr_account_id t = acc_id a)
              (map (\<lambda>t. (t, find (\<lambda>x. acc_id x = tr_account_id t) as)) (filter P ts))))
       = sum_list (map (\<lambda>t. balance_delta (acc_normal a) (tr_debit t) (tr_credit t))
           (filter (\<lambda>t. P t \<and> tr_account_id t = acc_id a) ts))"
  using assms by (induction ts) auto

lemma balance_change_removal:
  assumes "distinct (map acc_id (accounts st))" and "a \<in> set (accounts st)"
  shows "balance_change (removal_poster st types rid) (acc_id a) = - posted_delta st types rid a"
proof -
  have "find (\<lambda>x. acc_id x = acc_id a) (accounts st) = Some a"
    using assms by (rule find_account_distinct)
  from fetched_sum [OF this]
  show ?thesis
    by (simp add: balance_change_def removal_poster_simps fetch_transactions_def posted_delta_def
        conj_ac)
qed

lemma removal_poster_cong:
  "accounts st' = accounts st \<Longrightarrow> accounts_transactions st' = accounts_transactions st \<Longrightarrow>
   removal_poster st' types rid = removal_poster st types rid"
  by (simp add: removal_poster_def fetch_transactions_def)

lemma removed_ids:
  "set (map (\<lambda>(r, a). tr_id r) (jp_removed (removal_poster st types rid)))
   = tr_id ` {t \<in> set (accounts_transactions st).
               tr_reference_type t \<in> set types \<and> tr_reference_id t = rid}"
  by (force simp: removal_poster_simps fetch_transactions_def)

lemma accounts_after_removal:
  assumes "distinct (map acc_id (accounts st))"
  shows "map (\<lambda>a. a\<lparr>acc_balance := acc_balance a + balance_change (removal_poster st types rid) (acc_id a)\<rparr>)
             (accounts st)
       = map (\<lambda>a. a\<lparr>acc_balance := acc_balance a - posted_delta st types rid a\<rparr>) (accounts st)"
  using balance_change_removal [OF assms] by (intro map_cong) simp_all

subsection \<open>The handlers when every write is accepted\<close>

lemma editManualJournal_ok:
  assumes "validationErrors form = []" and "find_manual_journal st i = Some mj"
    and "edit_errorReasons st i form = []"
  shows "editManualJournal km no_faults st i form =
     (let st1 = update_manual_journal km i form (totalCredit (filter_entries form)) st;
          journal = removal_poster st1 [''Journal''] i
      in (saveBalance journal (saveEntries journal (deleteEntries journal st1)), Success None))"
  using assms find_manual_journal_id [OF assms(2)] promise_all_no_faults(2)
  by (simp add: editManualJournal_def Let_def removal_poster_def split_beta prod_eq_iff
      promise_all_no_faults(1)) (simp add: no_faults_def)

lemma deleteManualJournal_ok:
  assumes "find_manual_journal st i = Some mj"
  shows "deleteManualJournal no_faults st i =
     (let journal = removal_poster st [''Journal'', ''ManualJournal''] i
      in (saveBalance journal (deleteEntries journal (delete_manual_journal i st)), Success (Some i)))"
  using assms find_manual_journal_id [OF assms(1)] promise_all_no_faults(2)
  by (simp add: deleteManualJournal_def Let_def removal_poster_def split_beta prod_eq_iff
      promise_all_no_faults(1)) (simp add: no_faults_def)

subsection \<open>The handlers when a write is rejected\<close>












subsection \<open>Entry construction\<close>

lemma JournalEntry_raises:
  "JournalEntry d c a rt ri n nt dt u = Inl x \<Longrightarrow> x = InvalidEntryError"
  by (auto simp: JournalEntry_def Let_def split: option.splits if_splits)

lemma JournalEntry_invalid:
  "invalid_line e \<Longrightarrow>
   JournalEntry (ln_debit e) (ln_credit e) a rt ri n nt dt u = Inl InvalidEntryError"
  by (cases "ln_debit e"; cases "ln_credit e") (auto simp: invalid_line_def JournalEntry_def)

lemma stage_entries_invalid:
  assumes "\<forall>e \<in> set es. find (\<lambda>a. acc_id a = ln_account_id e) accs \<noteq> None"
    and "\<exists>e \<in> set es. invalid_line e"
  shows "stage_entries user date jid accs es p = Inl InvalidEntryError"
  using assms
proof (induction es arbitrary: p)
  case Nil
  then show ?case by simp
next
  case (Cons e es)
  from Cons.prems(1) obtain account
    where a: "find (\<lambda>a. acc_id a = ln_account_id e) accs = Some account" by auto
  show ?case
  proof (cases "JournalEntry (ln_debit e) (ln_credit e) (acc_id account) ''Journal'' jid
                  (acc_normal account) (ln_note e) date user")
    case (Inl x)
    then show ?thesis using a JournalEntry_raises [OF Inl] by simp
  next
    case (Inr je)
    then have "\<not> invalid_line e" using JournalEntry_invalid by fastforce
    with Cons.prems have "\<exists>e \<in> set es. invalid_line e" by auto
    with Cons.IH Cons.prems(1) show ?thesis using a Inr by simp
  qed
qed

lemma accounts_found:
  assumes "account_errors st es = []" and "e \<in> set es"
  shows "find (\<lambda>a. acc_id a = ln_account_id e) (accounts_whereIn st (map ln_account_id es)) \<noteq> None"
proof -
  from assms(1) have "set (missing_account_ids st es) = {}"
    by (simp add: account_errors_def split: if_splits)
  with assms(2) have "ln_account_id e \<in> acc_id ` set (accounts st)"
    unfolding set_missing_account_ids by auto
  then obtain a where "a \<in> set (accounts st)" "acc_id a = ln_account_id e" by auto
  with assms(2) have "a \<in> set (accounts_whereIn st (map ln_account_id es))"
    by (auto simp: accounts_whereIn_def)
  with \<open>acc_id a = ln_account_id e\<close> show ?thesis
    by (auto simp: find_None_iff)
qed

lemma makeJournalEntries_invalid:
  assumes "validationErrors form = []" and "create_errorReasons st form = []"
    and "\<not> fails DocumentWrite"
    and "\<exists>e \<in> set (filter_entries form). invalid_line e"
  shows "makeJournalEntries fails user st form
         = (fst (insert_manual_journal user form (totalCredit (filter_entries form)) st),
            Rejected InvalidEntryError)"
proof -
  from assms(2) have "account_errors st (filter_entries form) = []"
    by (simp add: create_errorReasons_def Let_def)
  then have "\<forall>e \<in> set (filter_entries form).
      find (\<lambda>a. acc_id a = ln_account_id e)
           (accounts_whereIn st (map ln_account_id (filter_entries form))) \<noteq> None"
    using accounts_found by blast
  from stage_entries_invalid [OF this assms(4)]
  show ?thesis
    using assms(1,2,3) by (simp add: makeJournalEntries_def Let_def split_beta)
qed

subsection \<open>The two-line minimum\<close>

text \<open>
  Claim C10. A create or edit request whose entries array has fewer than 2 elements is
  answered with the validation error, whatever the store, the document id and the fault
  oracle are: no total, account or journal-number check runs (their reasons would come in
  an \<open>ErrorResponse\<close>), and the store is returned as it was.
\<close>

theorem short_request_is_bad_data:
  "length (fm_entries form) < 2 \<Longrightarrow>
   makeJournalEntries fails user st form = (st, BadData [''entries'']) \<and>
   editManualJournal km fails st i form = (st, BadData [''entries''])"
  by (simp add: makeJournalEntries_def editManualJournal_def validationErrors_def)

text \<open>
  A single line with debit 100 and credit 100 has equal totals, and still does not reach
  the checks.
\<close>

theorem short_request_is_bad_data_witness:
  "length (fm_entries (request ''J-1'' [line 1 (Some 100) (Some 100)])) < 2 \<and>
   makeJournalEntries no_faults 7 st0 (request ''J-1'' [line 1 (Some 100) (Some 100)])
     = (st0, BadData [''entries'']) \<and>
   editManualJournal WritesColumn no_faults st1 1 (request ''J-1'' [line 1 (Some 100) (Some 100)])
     = (st1, BadData [''entries''])"
  using short_request_is_bad_data [where form = "request ''J-1'' [line 1 (Some 100) (Some 100)]"
      and km = WritesColumn and fails = no_faults]
  by (simp add: request_def)

subsection \<open>Unbalanced totals\<close>




subsection \<open>Unknown accounts\<close>

text \<open>
  Claim C5, as stated, fails: the reason the handler reports for unknown accounts is the
  object with type ACCOUNTS.IDS.NOT.FOUND and code 200 and nothing else. A request whose
  missing account ids are 7 and 8 and a request whose only missing id is 9 get the same
  response, so the response does not carry the set of missing ids.
\<close>

theorem unknown_accounts_payload_counterexample:
  "makeJournalEntries no_faults 7 st0
     (request ''J-1'' [line 7 (Some 100) None, line 8 None (Some 100)])
   = (st0, ErrorResponse 400 [\<lparr>er_type = ''ACCOUNTS.IDS.NOT.FOUND'', er_code = 200\<rparr>])
   \<and> makeJournalEntries no_faults 7 st0
     (request ''J-1'' [line 1 (Some 100) None, line 9 None (Some 100)])
   = (st0, ErrorResponse 400 [\<lparr>er_type = ''ACCOUNTS.IDS.NOT.FOUND'', er_code = 200\<rparr>])
   \<and> set (missing_account_ids st0
        (filter_entries (request ''J-1'' [line 7 (Some 100) None, line 8 None (Some 100)])))
       = {7, 8}
   \<and> set (missing_account_ids st0
        (filter_entries (request ''J-1'' [line 1 (Some 100) None, line 9 None (Some 100)])))
       = {9}"
  by code_simp

text \<open>
  Claim C5, amended. For a create request that passed the validation chain and in which a
  line left after dropping the empty ones refers to an account id that no account has, the
  handler answers 400 and leaves the store unchanged; the reasons are those of the totals
  check, then the one reason ACCOUNTS.IDS.NOT.FOUND (code 200, once, without any account
  id), then the reason of the journal-number check if that fails too.
\<close>

theorem unknown_accounts_rejected:
  assumes "validationErrors form = []"
    and "\<exists>e \<in> set (filter_entries form). ln_account_id e \<notin> acc_id ` set (accounts st)"
  shows "makeJournalEntries fails user st form =
           (st, ErrorResponse 400
                  (total_errors (filter_entries form) @ [ACCOUNTS_IDS_NOT_FOUND]
                   @ (if journal_number_taken st (fm_journal_number form)
                      then [JOURNAL_NUMBER_ALREADY_EXISTS] else [])))"
proof -
  from assms(2) have "set (missing_account_ids st (filter_entries form)) \<noteq> {}"
    unfolding set_missing_account_ids by blast
  then have "account_errors st (filter_entries form) = [ACCOUNTS_IDS_NOT_FOUND]"
    by (simp add: account_errors_def)
  then have r: "create_errorReasons st form =
      total_errors (filter_entries form) @ [ACCOUNTS_IDS_NOT_FOUND]
      @ (if journal_number_taken st (fm_journal_number form)
         then [JOURNAL_NUMBER_ALREADY_EXISTS] else [])"
    by (simp add: create_errorReasons_def Let_def)
  then have "create_errorReasons st form \<noteq> []" by simp
  from makeJournalEntries_errors [OF assms(1) this] r show ?thesis by simp
qed

theorem unknown_accounts_rejected_witness:
  "validationErrors (request ''J-1'' [line 7 (Some 100) None, line 8 None (Some 100)]) = []
   \<and> map ln_account_id
         (filter_entries (request ''J-1'' [line 7 (Some 100) None, line 8 None (Some 100)]))
       = [7, 8]
   \<and> map acc_id (accounts st0) = [1, 2]
   \<and> makeJournalEntries no_faults 7 st0
        (request ''J-1'' [line 7 (Some 100) None, line 8 None (Some 100)])
      = (st0, ErrorResponse 400 [ACCOUNTS_IDS_NOT_FOUND])"
proof -
  let ?f = "request ''J-1'' [line 7 (Some 100) None, line 8 None (Some 100)]"
  have v: "validationErrors ?f = []"
    by (simp add: validationErrors_def request_def)
  have m: "\<exists>e \<in> set (filter_entries ?f). ln_account_id e \<notin> acc_id ` set (accounts st0)"
    by (simp add: filter_entries_def nonempty_line_def request_def line_def st0_def)
  have t: "total_errors (filter_entries ?f) = []"
    by (simp add: total_errors_def totalCredit_def totalDebit_def filter_entries_def
        nonempty_line_def request_def line_def round_double_def)
  have j: "\<not> journal_number_taken st0 (fm_journal_number ?f)"
    by (simp add: journal_number_taken_def st0_def)
  have i: "map ln_account_id (filter_entries ?f) = [7, 8]"
    by (simp add: filter_entries_def nonempty_line_def request_def line_def)
  have a: "map acc_id (accounts st0) = [1, 2]" by (simp add: st0_def)
  show ?thesis
    using v i a unknown_accounts_rejected [OF v m, of no_faults 7] t j by simp
qed

subsection \<open>Journal numbers\<close>

text \<open>
  Claim C6. For a request that passed the validation chain: the create handler answers
  400 with the reason JOURNAL.NUMBER.ALREADY.EXISTS, store unchanged, whenever some stored
  document has the request's journal number (documents are deleted for good, so every
  stored document is a non-deleted one); the edit handler, for an existing document,
  does the same whenever some stored document with another id has that number; and when
  the only stored documents with that number have the edited id itself, no response of the
  edit handler carries that reason.
\<close>

theorem journal_number_unique:
  assumes "validationErrors form = []"
  shows "((\<exists>j \<in> set (manual_journals st). mj_journal_number j = fm_journal_number form) \<longrightarrow>
            (\<exists>rs. makeJournalEntries fails user st form = (st, ErrorResponse 400 rs)
                  \<and> JOURNAL_NUMBER_ALREADY_EXISTS \<in> set rs))
       \<and> (find_manual_journal st i \<noteq> None
            \<and> (\<exists>j \<in> set (manual_journals st).
                   mj_journal_number j = fm_journal_number form \<and> mj_id j \<noteq> i) \<longrightarrow>
            (\<exists>rs. editManualJournal km fails st i form = (st, ErrorResponse 400 rs)
                  \<and> JOURNAL_NUMBER_ALREADY_EXISTS \<in> set rs))
       \<and> ((\<forall>j \<in> set (manual_journals st).
               mj_journal_number j = fm_journal_number form \<longrightarrow> mj_id j = i) \<longrightarrow>
            (\<forall>s rs. snd (editManualJournal km fails st i form) = ErrorResponse s rs \<longrightarrow>
                    JOURNAL_NUMBER_ALREADY_EXISTS \<notin> set rs))"
proof (intro conjI impI allI)
  assume "\<exists>j \<in> set (manual_journals st). mj_journal_number j = fm_journal_number form"
  then have m: "JOURNAL_NUMBER_ALREADY_EXISTS \<in> set (create_errorReasons st form)"
    by (simp add: create_errorReasons_def Let_def journal_number_taken_iff)
  then have "create_errorReasons st form \<noteq> []" by auto
  with assms m show "\<exists>rs. makeJournalEntries fails user st form = (st, ErrorResponse 400 rs)
                  \<and> JOURNAL_NUMBER_ALREADY_EXISTS \<in> set rs"
    using makeJournalEntries_errors by blast
next
  assume a: "find_manual_journal st i \<noteq> None
            \<and> (\<exists>j \<in> set (manual_journals st).
                   mj_journal_number j = fm_journal_number form \<and> mj_id j \<noteq> i)"
  then obtain mj where f: "find_manual_journal st i = Some mj" by auto
  from a have "other_journal_with_number st (fm_journal_number form) i \<noteq> None"
    by (auto simp: other_journal_with_number_None_iff)
  then have m: "JOURNAL_NUMBER_ALREADY_EXISTS \<in> set (edit_errorReasons st i form)"
    by (auto simp: edit_errorReasons_def Let_def)
  then have "edit_errorReasons st i form \<noteq> []" by auto
  with assms f m show "\<exists>rs. editManualJournal km fails st i form = (st, ErrorResponse 400 rs)
                  \<and> JOURNAL_NUMBER_ALREADY_EXISTS \<in> set rs"
    using editManualJournal_errors by blast
next
  fix s rs
  assume own: "\<forall>j \<in> set (manual_journals st).
               mj_journal_number j = fm_journal_number form \<longrightarrow> mj_id j = i"
    and r: "snd (editManualJournal km fails st i form) = ErrorResponse s rs"
  from own have n: "other_journal_with_number st (fm_journal_number form) i = None"
    by (simp add: other_journal_with_number_None_iff)
  have "JOURNAL_NUMBER_ALREADY_EXISTS \<notin> set (edit_errorReasons st i form)"
    by (simp add: edit_errorReasons_def Let_def n total_errors_def account_errors_def)
  with editManualJournal_response_cases [OF r]
  show "JOURNAL_NUMBER_ALREADY_EXISTS \<notin> set rs" by auto
qed

text \<open>
  With J-1 (id 1) and J-2 (id 2) stored: creating another J-1 fails, renumbering
  document 2 to J-1 fails, editing document 1 under its own number J-1 goes through, and
  an unbalanced edit of document 1 under its own number is refused for its totals only.
\<close>

theorem journal_number_unique_witness:
  "validationErrors (request ''J-1'' [line 1 (Some 40) None, line 2 None (Some 40)]) = []
   \<and> map (\<lambda>j. (mj_id j, mj_journal_number j)) (manual_journals st2)
       = [(1, ''J-1''), (2, ''J-2'')]
   \<and> (\<exists>rs. makeJournalEntries no_faults 7 st2
              (request ''J-1'' [line 1 (Some 40) None, line 2 None (Some 40)])
             = (st2, ErrorResponse 400 rs) \<and> JOURNAL_NUMBER_ALREADY_EXISTS \<in> set rs)
   \<and> find_manual_journal st2 2 \<noteq> None
   \<and> (\<exists>rs. editManualJournal WritesColumn no_faults st2 2
              (request ''J-1'' [line 1 (Some 40) None, line 2 None (Some 40)])
             = (st2, ErrorResponse 400 rs) \<and> JOURNAL_NUMBER_ALREADY_EXISTS \<in> set rs)
   \<and> snd (editManualJournal WritesColumn no_faults st2 1
        (request ''J-1'' [line 1 (Some 40) None, line 2 None (Some 40)])) = Success None
   \<and> validationErrors (request ''J-1'' [line 1 (Some 40) None, line 2 None (Some 30)]) = []
   \<and> snd (editManualJournal WritesColumn no_faults st2 1
        (request ''J-1'' [line 1 (Some 40) None, line 2 None (Some 30)]))
       = ErrorResponse 400 [MISMATCH]
   \<and> JOURNAL_NUMBER_ALREADY_EXISTS \<notin> set [MISMATCH]"
proof -
  let ?f = "request ''J-1'' [line 1 (Some 40) None, line 2 None (Some 40)]"
  have v: "validationErrors ?f = []"
    by (simp add: validationErrors_def request_def)
  have n: "fm_journal_number ?f = ''J-1''" by (simp add: request_def)
  have a: "\<exists>j \<in> set (manual_journals st2). mj_journal_number j = ''J-1''" by code_simp
  have b: "find_manual_journal st2 2 \<noteq> None" by code_simp
  have c: "\<exists>j \<in> set (manual_journals st2). mj_journal_number j = ''J-1'' \<and> mj_id j \<noteq> 2"
    by code_simp
  have d: "\<forall>j \<in> set (manual_journals st2). mj_journal_number j = ''J-1'' \<longrightarrow> mj_id j = 1"
    by code_simp
  have e: "snd (editManualJournal WritesColumn no_faults st2 1 ?f) = Success None" by code_simp
  have m: "map (\<lambda>j. (mj_id j, mj_journal_number j)) (manual_journals st2)
           = [(1, ''J-1''), (2, ''J-2'')]" by code_simp
  let ?g = "request ''J-1'' [line 1 (Some 40) None, line 2 None (Some 30)]"
  have v': "validationErrors ?g = []"
    by (simp add: validationErrors_def request_def)
  have n': "fm_journal_number ?g = ''J-1''" by (simp add: request_def)
  have e': "snd (editManualJournal WritesColumn no_faults st2 1 ?g) = ErrorResponse 400 [MISMATCH]"
    by code_simp
  have x: "JOURNAL_NUMBER_ALREADY_EXISTS \<notin> set [MISMATCH]"
    using d e' journal_number_unique [OF v', where st = st2 and fails = no_faults and user = 7
        and i = 1 and km = WritesColumn] n' by simp
  show ?thesis
    using v a b c e m v' e' x journal_number_unique [OF v, where st = st2 and fails = no_faults
        and user = 7 and i = 2 and km = WritesColumn] n
    by simp
qed

subsection \<open>Documents that are not there\<close>

lemma deleteManualJournal_not_found:
  "find_manual_journal st i = None \<Longrightarrow>
   deleteManualJournal fails st i = (st, ErrorResponse 404 [MANUAL_JOURNAL_NOT_FOUND])"
  by (simp add: deleteManualJournal_def)

lemma editManualJournal_not_found:
  "validationErrors form = [] \<Longrightarrow> find_manual_journal st i = None \<Longrightarrow>
   editManualJournal km fails st i form = (st, Rejected RangeError)"
  by (simp add: editManualJournal_def)

lemma deleteManualJournal_twice:
  assumes "find_manual_journal st i \<noteq> None"
  shows "\<exists>st'. deleteManualJournal no_faults st i = (st', Success (Some i))
             \<and> deleteManualJournal fails st' i = (st', ErrorResponse 404 [MANUAL_JOURNAL_NOT_FOUND])"
proof -
  from assms obtain mj where f: "find_manual_journal st i = Some mj" by auto
  let ?st' = "fst (deleteManualJournal no_faults st i)"
  have 1: "deleteManualJournal no_faults st i = (?st', Success (Some i))"
    using deleteManualJournal_no_faults [OF f] by (simp add: prod_eq_iff)
  have "find_manual_journal ?st' i = None"
    using deleteManualJournal_removes [OF f, of no_faults] by (simp add: no_faults_def)
  then have 2: "deleteManualJournal fails ?st' i = (?st', ErrorResponse 404 [MANUAL_JOURNAL_NOT_FOUND])"
    by (rule deleteManualJournal_not_found)
  from 1 2 show ?thesis by blast
qed

text \<open>
  Claim C7 holds of the delete handler and not of the edit handler. When no stored
  document has the id, the delete handler answers 404 with the single reason
  MANUAL.JOURNAL.NOT.FOUND and changes nothing, so a second delete of a document answers
  that and leaves every balance as it is (lemmas \<open>deleteManualJournal_not_found\<close> and
  \<open>deleteManualJournal_twice\<close>). The edit handler, for a request that passed the
  validation chain, means to answer the same reason but sends it under the status 4040,
  where the delete handler and \<open>getManualJournal\<close> write 404: sending throws, the
  handler's promise rejects with RangeError and no MANUAL.JOURNAL.NOT.FOUND reaches the
  caller (lemma \<open>editManualJournal_not_found\<close>). The store is unchanged. Evaluated in the
  empty store for document 1, and in the store holding J-1 for two deletes of document 1:
\<close>

theorem edit_of_missing_document_throws:
  "find_manual_journal st0 1 = None
   \<and> editManualJournal WritesColumn no_faults st0 1
        (request ''J-1'' [line 1 (Some 40) None, line 2 None (Some 40)])
      = (st0, Rejected RangeError)
   \<and> editManualJournal NamesNoColumn no_faults st0 1
        (request ''J-1'' [line 1 (Some 40) None, line 2 None (Some 40)])
      = (st0, Rejected RangeError)
   \<and> deleteManualJournal no_faults st0 1 = (st0, ErrorResponse 404 [MANUAL_JOURNAL_NOT_FOUND])
   \<and> snd (deleteManualJournal no_faults st1 1) = Success (Some 1)
   \<and> deleteManualJournal no_faults (fst (deleteManualJournal no_faults st1 1)) 1
      = (fst (deleteManualJournal no_faults st1 1), ErrorResponse 404 [MANUAL_JOURNAL_NOT_FOUND])"
  by code_simp

subsection \<open>Lines without amounts\<close>



subsection \<open>Which entries edit and delete reverse\<close>

text \<open>
  Claim C9. In a store whose account ids are distinct and that holds document \<open>i\<close>, with
  every write accepted: the delete handler removes the transactions of document \<open>i\<close>
  whose reference type is Journal or ManualJournal and takes their balance deltas back
  from every account; the edit handler, for a request that passed its checks, does so
  only for the transactions whose reference type is Journal. Consequently, when all
  transactions of document \<open>i\<close> are tagged ManualJournal, the edit leaves the
  transactions and every account balance as they were, while the delete reverses them.
\<close>

theorem edit_and_delete_reference_types:
  assumes "distinct (map acc_id (accounts st))" and "find_manual_journal st i \<noteq> None"
  shows "(validationErrors form = [] \<and> edit_errorReasons st i form = [] \<longrightarrow>
            accounts (fst (editManualJournal km no_faults st i form))
              = map (\<lambda>a. a\<lparr>acc_balance := acc_balance a - posted_delta st [''Journal''] i a\<rparr>)
                    (accounts st)
            \<and> accounts_transactions (fst (editManualJournal km no_faults st i form))
              = filter (\<lambda>t. tr_id t \<notin> tr_id ` {t \<in> set (accounts_transactions st).
                                tr_reference_type t \<in> {''Journal''} \<and> tr_reference_id t = i})
                       (accounts_transactions st))
       \<and> accounts (fst (deleteManualJournal no_faults st i))
           = map (\<lambda>a. a\<lparr>acc_balance :=
                          acc_balance a - posted_delta st [''Journal'', ''ManualJournal''] i a\<rparr>)
                 (accounts st)
       \<and> accounts_transactions (fst (deleteManualJournal no_faults st i))
           = filter (\<lambda>t. tr_id t \<notin> tr_id ` {t \<in> set (accounts_transactions st).
                             tr_reference_type t \<in> {''Journal'', ''ManualJournal''}
                             \<and> tr_reference_id t = i})
                    (accounts_transactions st)
       \<and> (validationErrors form = [] \<and> edit_errorReasons st i form = []
            \<and> (\<forall>t \<in> set (accounts_transactions st).
                   tr_reference_id t = i \<longrightarrow> tr_reference_type t = ''ManualJournal'') \<longrightarrow>
            accounts (fst (editManualJournal km no_faults st i form)) = accounts st
            \<and> accounts_transactions (fst (editManualJournal km no_faults st i form))
                = accounts_transactions st)"
proof -
  from assms(2) obtain mj where f: "find_manual_journal st i = Some mj" by auto
  let ?st1 = "update_manual_journal km i form (totalCredit (filter_entries form)) st"
  have p: "removal_poster ?st1 types i = removal_poster st types i" for types
    by (rule removal_poster_cong) simp_all
  have edit: "accounts (fst (editManualJournal km no_faults st i form))
              = map (\<lambda>a. a\<lparr>acc_balance := acc_balance a - posted_delta st [''Journal''] i a\<rparr>)
                    (accounts st)
            \<and> accounts_transactions (fst (editManualJournal km no_faults st i form))
              = filter (\<lambda>t. tr_id t \<notin> tr_id ` {t \<in> set (accounts_transactions st).
                                tr_reference_type t \<in> {''Journal''} \<and> tr_reference_id t = i})
                       (accounts_transactions st)"
    if v: "validationErrors form = []" "edit_errorReasons st i form = []"
  proof -
    have "accounts (fst (editManualJournal km no_faults st i form))
          = map (\<lambda>a. a\<lparr>acc_balance := acc_balance a
                         + balance_change (removal_poster st [''Journal''] i) (acc_id a)\<rparr>)
                (accounts st)"
      by (simp add: editManualJournal_ok [OF v(1) f v(2)] Let_def p saveBalance_def
          saveEntries_def deleteEntries_def)
    moreover have "accounts_transactions (fst (editManualJournal km no_faults st i form))
          = filter (\<lambda>t. tr_id t \<notin> set (map (\<lambda>(r, a). tr_id r)
                            (jp_removed (removal_poster st [''Journal''] i))))
                   (accounts_transactions st)"
      by (simp add: editManualJournal_ok [OF v(1) f v(2)] Let_def p saveBalance_def
          saveEntries_def deleteEntries_def removal_poster_simps(1))
    ultimately show ?thesis
      unfolding removed_ids accounts_after_removal [OF assms(1)] by simp
  qed
  have del: "accounts (fst (deleteManualJournal no_faults st i))
           = map (\<lambda>a. a\<lparr>acc_balance :=
                          acc_balance a - posted_delta st [''Journal'', ''ManualJournal''] i a\<rparr>)
                 (accounts st)
       \<and> accounts_transactions (fst (deleteManualJournal no_faults st i))
           = filter (\<lambda>t. tr_id t \<notin> tr_id ` {t \<in> set (accounts_transactions st).
                             tr_reference_type t \<in> {''Journal'', ''ManualJournal''}
                             \<and> tr_reference_id t = i})
                    (accounts_transactions st)"
  proof -
    have "accounts (fst (deleteManualJournal no_faults st i))
          = map (\<lambda>a. a\<lparr>acc_balance := acc_balance a
                  + balance_change (removal_poster st [''Journal'', ''ManualJournal''] i) (acc_id a)\<rparr>)
                (accounts st)"
      by (simp add: deleteManualJournal_ok [OF f] Let_def saveBalance_def deleteEntries_def)
    moreover have "accounts_transactions (fst (deleteManualJournal no_faults st i))
          = filter (\<lambda>t. tr_id t \<notin> set (map (\<lambda>(r, a). tr_id r)
                            (jp_removed (removal_poster st [''Journal'', ''ManualJournal''] i))))
                   (accounts_transactions st)"
      by (simp add: deleteManualJournal_ok [OF f] Let_def saveBalance_def deleteEntries_def)
    ultimately show ?thesis
      unfolding removed_ids accounts_after_removal [OF assms(1)] by simp
  qed
  have same: "accounts (fst (editManualJournal km no_faults st i form)) = accounts st
            \<and> accounts_transactions (fst (editManualJournal km no_faults st i form))
                = accounts_transactions st"
    if v: "validationErrors form = []" "edit_errorReasons st i form = []"
      and m: "\<forall>t \<in> set (accounts_transactions st).
                   tr_reference_id t = i \<longrightarrow> tr_reference_type t = ''ManualJournal''"
  proof -
    have none: "filter (\<lambda>t. tr_reference_type t \<in> set [''Journal''] \<and> tr_reference_id t = i
                    \<and> tr_account_id t = acc_id a) (accounts_transactions st) = []" for a
      using m by (auto simp: filter_empty_conv)
    have z: "posted_delta st [''Journal''] i a = 0" for a
      unfolding posted_delta_def none by simp
    have e: "{t \<in> set (accounts_transactions st).
               tr_reference_type t \<in> {''Journal''} \<and> tr_reference_id t = i} = {}"
      using m by auto
    from edit [OF v] show ?thesis
      unfolding z e by simp
  qed
  from edit del same show ?thesis by blast
qed

text \<open>
  In \<open>st3\<close> the two entries of document 1 are tagged ManualJournal and the balances
  are 100 and 100: the edit leaves them, the delete brings them back to 0 and 0.
\<close>

theorem edit_and_delete_reference_types_witness:
  "distinct (map acc_id (accounts st3)) \<and> find_manual_journal st3 1 \<noteq> None
   \<and> validationErrors (request ''J-1'' [line 1 (Some 40) None, line 2 None (Some 40)]) = []
   \<and> edit_errorReasons st3 1 (request ''J-1'' [line 1 (Some 40) None, line 2 None (Some 40)]) = []
   \<and> map (\<lambda>t. (tr_reference_id t, tr_reference_type t)) (accounts_transactions st3)
       = [(1, ''ManualJournal''), (1, ''ManualJournal'')]
   \<and> map acc_balance (accounts st3) = [100, 100]
   \<and> accounts (fst (editManualJournal WritesColumn no_faults st3 1
         (request ''J-1'' [line 1 (Some 40) None, line 2 None (Some 40)]))) = accounts st3
   \<and> accounts_transactions (fst (editManualJournal WritesColumn no_faults st3 1
         (request ''J-1'' [line 1 (Some 40) None, line 2 None (Some 40)])))
       = accounts_transactions st3
   \<and> map acc_balance (accounts (fst (deleteManualJournal no_faults st3 1))) = [0, 0]
   \<and> accounts_transactions (fst (deleteManualJournal no_faults st3 1)) = []"
proof -
  let ?f = "request ''J-1'' [line 1 (Some 40) None, line 2 None (Some 40)]"
  have d: "distinct (map acc_id (accounts st3))" by code_simp
  have f: "find_manual_journal st3 1 \<noteq> None" by code_simp
  have v: "validationErrors ?f = []"
    by (simp add: validationErrors_def request_def)
  have e: "edit_errorReasons st3 1 ?f = []" by code_simp
  have m: "\<forall>t \<in> set (accounts_transactions st3).
             tr_reference_id t = 1 \<longrightarrow> tr_reference_type t = ''ManualJournal''"
    by code_simp
  have b: "map acc_balance (accounts st3) = [100, 100]" by code_simp
  have x: "map acc_balance (accounts (fst (deleteManualJournal no_faults st3 1))) = [0, 0]"
    by code_simp
  have y: "accounts_transactions (fst (deleteManualJournal no_faults st3 1)) = []"
    by code_simp
  have z: "map (\<lambda>t. (tr_reference_id t, tr_reference_type t)) (accounts_transactions st3)
           = [(1, ''ManualJournal''), (1, ''ManualJournal'')]" by code_simp
  show ?thesis
    using d f v e m b x y z edit_and_delete_reference_types [OF d f, where form = ?f and km = WritesColumn]
    by blast
qed

subsection \<open>Editing a posted document\<close>

text \<open>
  Claim C1 does not hold of the edit handler. It validates the new lines and updates the
  document, loads and removes the old entries, and calls \<open>saveEntries\<close> and
  \<open>saveBalance\<close>, but it never stages the new lines in the poster (the create handler
  does, in its \<open>entries.forEach\<close>). On the scenario of the specification, after posting
  debit 100 and credit 100 as J-1 and editing it to debit 40 and credit 40, the document's
  amount is 40, no entry is stored and both balances are 0, whereas posting the new lines
  directly gives the balances 40 and 40.
\<close>

theorem edit_posts_no_new_entries:
  "editManualJournal WritesColumn no_faults st1 1 (request ''J-1'' [line 1 (Some 40) None, line 2 None (Some 40)])
   = (\<lparr>accounts = [\<lparr>acc_id = 1, acc_normal = DebitNormal, acc_balance = 0\<rparr>,
                    \<lparr>acc_id = 2, acc_normal = CreditNormal, acc_balance = 0\<rparr>],
       manual_journals =
         [\<lparr>mj_id = 1, mj_reference = [], mj_transaction_type = ''Journal'',
           mj_journal_number = ''J-1'', mj_amount = Finite 40, mj_date = ''2020-01-31'',
           mj_description = None, mj_user_id = 7\<rparr>],
       accounts_transactions = [], last_journal_id = 1, last_transaction_id = 2\<rparr>,
      Success None)
   \<and> editManualJournal NamesNoColumn no_faults st1 1
        (request ''J-1'' [line 1 (Some 40) None, line 2 None (Some 40)])
     = editManualJournal WritesColumn no_faults st1 1
        (request ''J-1'' [line 1 (Some 40) None, line 2 None (Some 40)])
   \<and> map acc_balance (accounts st1) = [100, 100]
   \<and> map acc_balance (accounts (fst (makeJournalEntries no_faults 7 st0
        (request ''J-1'' [line 1 (Some 40) None, line 2 None (Some 40)])))) = [40, 40]"
  by code_simp

subsection \<open>Rejected writes\<close>




subsection \<open>Lines the entry constructor refuses\<close>

text \<open>
  Claim C4, as stated, fails: a line whose only set amount is zero is dropped by the
  filter on the lines, without any error. The request with such a third line succeeds
  and gives the very result of the request without it.
\<close>

theorem zero_amount_line_counterexample:
  "makeJournalEntries no_faults 7 st0
     (request ''J-1'' [line 1 (Some 100) None, line 2 None (Some 100), line 1 (Some 0) None])
   = makeJournalEntries no_faults 7 st0
     (request ''J-1'' [line 1 (Some 100) None, line 2 None (Some 100)])
   \<and> makeJournalEntries no_faults 7 st0
     (request ''J-1'' [line 1 (Some 100) None, line 2 None (Some 100), line 1 (Some 0) None])
     = (st1, Success (Some 1))
   \<and> invalid_line (line 1 (Some 0) None)"
  by code_simp

text \<open>
  Claim C4, amended. A create request with a line that the filter keeps (a non-zero debit
  or credit) and that has both amounts set, or a set amount that is zero or negative,
  never succeeds, and no entry is stored and no balance changed for it. When the request
  passes the validation chain and the checks on totals, accounts and journal number, and
  the document write is accepted, the operation stops with InvalidEntryError at the
  construction of that entry (the document has been inserted by then). A line whose
  amounts are all zero or unset is dropped without error (claim C8).
\<close>

theorem invalid_line_rejected:
  assumes "e \<in> set (fm_entries form)" and "nonempty_line e" and "invalid_line e"
  shows "(\<forall>b. snd (makeJournalEntries fails user st form) \<noteq> Success b)
       \<and> accounts_transactions (fst (makeJournalEntries fails user st form))
           = accounts_transactions st
       \<and> accounts (fst (makeJournalEntries fails user st form)) = accounts st
       \<and> (validationErrors form = [] \<and> create_errorReasons st form = []
            \<and> \<not> fails DocumentWrite \<longrightarrow>
          snd (makeJournalEntries fails user st form) = Rejected InvalidEntryError)"
proof -
  from assms have inv: "\<exists>e \<in> set (filter_entries form). invalid_line e"
    by (auto simp: filter_entries_def)
  consider (bad) "validationErrors form \<noteq> []"
    | (errs) "validationErrors form = []" "create_errorReasons st form \<noteq> []"
    | (fault) "validationErrors form = []" "create_errorReasons st form = []" "fails DocumentWrite"
    | (go) "validationErrors form = []" "create_errorReasons st form = []" "\<not> fails DocumentWrite"
    by blast
  then show ?thesis
  proof cases
    case bad
    then show ?thesis by (simp add: makeJournalEntries_def)
  next
    case errs
    then show ?thesis by (simp add: makeJournalEntries_errors)
  next
    case fault
    then show ?thesis by (simp add: makeJournalEntries_def Let_def)
  next
    case go
    from makeJournalEntries_invalid [of form st fails user, OF go inv]
    show ?thesis by simp
  qed
qed

text \<open>
  A third line with debit -5 beside the two lines of J-1 (the totals count only positive
  amounts, so the checks pass), and a line with debit 100 and credit 100 beside an empty
  line: both requests stop with InvalidEntryError.
\<close>

theorem invalid_line_rejected_witness:
  "line 1 (Some (- 5)) None
     \<in> set (fm_entries (request ''J-1'' [line 1 (Some 100) None, line 2 None (Some 100),
                                          line 1 (Some (- 5)) None]))
   \<and> nonempty_line (line 1 (Some (- 5)) None) \<and> invalid_line (line 1 (Some (- 5)) None)
   \<and> validationErrors (request ''J-1'' [line 1 (Some 100) None, line 2 None (Some 100),
                                         line 1 (Some (- 5)) None]) = []
   \<and> create_errorReasons st0 (request ''J-1'' [line 1 (Some 100) None, line 2 None (Some 100),
                                                line 1 (Some (- 5)) None]) = []
   \<and> \<not> no_faults DocumentWrite
   \<and> snd (makeJournalEntries no_faults 7 st0
             (request ''J-1'' [line 1 (Some 100) None, line 2 None (Some 100),
                               line 1 (Some (- 5)) None])) = Rejected InvalidEntryError
   \<and> line 1 (Some 100) (Some 100)
       \<in> set (fm_entries (request ''J-1'' [line 1 (Some 100) (Some 100), line 2 None None]))
   \<and> nonempty_line (line 1 (Some 100) (Some 100)) \<and> invalid_line (line 1 (Some 100) (Some 100))
   \<and> validationErrors (request ''J-1'' [line 1 (Some 100) (Some 100), line 2 None None]) = []
   \<and> create_errorReasons st0 (request ''J-1'' [line 1 (Some 100) (Some 100), line 2 None None]) = []
   \<and> snd (makeJournalEntries no_faults 7 st0
             (request ''J-1'' [line 1 (Some 100) (Some 100), line 2 None None]))
       = Rejected InvalidEntryError"
proof -
  let ?e = "line 1 (Some (- 5)) None"
  let ?f = "request ''J-1'' [line 1 (Some 100) None, line 2 None (Some 100), ?e]"
  let ?d = "line 1 (Some 100) (Some 100)"
  let ?g = "request ''J-1'' [?d, line 2 None None]"
  have m: "?e \<in> set (fm_entries ?f)" and m': "?d \<in> set (fm_entries ?g)"
    by (simp_all add: request_def)
  have n: "nonempty_line ?e" and n': "nonempty_line ?d"
    by (simp_all add: nonempty_line_def line_def)
  have i: "invalid_line ?e" and i': "invalid_line ?d"
    by (simp_all add: invalid_line_def line_def)
  have v: "validationErrors ?f = []" and v': "validationErrors ?g = []"
    by (simp_all add: validationErrors_def request_def)
  have c: "create_errorReasons st0 ?f = []" by code_simp
  have c': "create_errorReasons st0 ?g = []" by code_simp
  have w: "\<not> no_faults DocumentWrite" by (simp add: no_faults_def)
  show ?thesis
    using m n i v c w m' n' i' v' c'
      invalid_line_rejected [OF m n i, of no_faults 7 st0]
      invalid_line_rejected [OF m' n' i', of no_faults 7 st0]
    by blast
qed

end
